theory Spec2Isabelle
  imports Main "HOL-Library.Sublist"
begin

section \<open>Values exchanged with the libraries\<close>

text \<open>
  Two scripts are embedded: \<^verbatim>\<open>connections-chat/app.py\<close> (the career chatbot, whose
  \<^verbatim>\<open>chat\<close> drives the tool-call loop) and \<^verbatim>\<open>profile-chatbot.py\<close> (whose
  \<^verbatim>\<open>chat\<close> gates a reply through a judge). Python strings are \<open>string\<close>, read as
  sequences of code points below 256.

  A decoded JSON document, as \<^verbatim>\<open>json.loads\<close> returns it and \<^verbatim>\<open>json.dumps\<close> accepts
  it. A number is carried by the text Python prints for it (the same text for
  \<^verbatim>\<open>str\<close> and \<^verbatim>\<open>json.dumps\<close>, NaN and the infinities apart); a dict is an
  association list in insertion order.
\<close>

datatype json =
    JNull
  | JBool bool
  | JNum string
  | JStr string
  | JArr "json list"
  | JObj "(string \<times> json) list"

text \<open>
  Exceptions are values. \<open>LibraryError c\<close> is an exception of class \<open>c\<close> raised inside a
  library call (the OpenAI client, pydantic validation, a callable defined outside the
  script); the other three are raised by the interpreter or by \<^verbatim>\<open>json\<close> at a place the
  scripts reach.
\<close>

datatype error =
    JSONDecodeError
  | TypeError
  | AttributeError
  | LibraryError string

record tool_call =
  call_id :: string
  fn_name :: string
  fn_arguments :: string

text \<open>
  One entry of the message sequence: a dict \<^verbatim>\<open>{"role": .., "content": ..}\<close>, a tool
  reply with its \<^verbatim>\<open>tool_call_id\<close>, or the assistant message object of a response.
  A key the entry does not have is \<open>None\<close>.
\<close>

record message =
  role :: string
  content :: "string option"
  tool_call_id :: "string option"
  tool_calls :: "tool_call list option"

text \<open>\<^verbatim>\<open>response.choices[0]\<close>: its \<^verbatim>\<open>finish_reason\<close> and its \<^verbatim>\<open>message\<close>.\<close>

record response =
  finish_reason :: string
  response_message :: message

text \<open>The pydantic model \<^verbatim>\<open>Evaluation\<close> of the profile chatbot.\<close>

record evaluation =
  is_acceptable :: bool
  feedback :: string

text \<open>The form data of a notification request: the two credentials and the message.\<close>

record payload =
  payload_user :: "string option"
  payload_token :: "string option"
  payload_message :: json

text \<open>
  What the \<^verbatim>\<open>try\<close> block of \<^verbatim>\<open>push\<close> can meet, one constructor per branch that
  prints: the reply has \<^verbatim>\<open>status == 1\<close>; it has not (with the text of its
  \<^verbatim>\<open>errors\<close>); a \<^verbatim>\<open>RequestException\<close> (also from \<^verbatim>\<open>raise_for_status\<close>); any other
  \<^verbatim>\<open>Exception\<close>.
\<close>

datatype http_outcome =
    Delivered
  | Refused string
  | Request_failed string
  | Unexpected_failure string

text \<open>
  What a name of the module namespace is bound to, as far as \<^verbatim>\<open>if tool:\<close> and
  \<^verbatim>\<open>tool(**arguments)\<close> can tell: one of the script's three notification functions, a
  falsy value, a truthy value that cannot be called, or a callable whose body lies outside
  this embedding.
\<close>

datatype func = Push | Record_user_details | Record_unknown_question

datatype gobj =
    Function func
  | Falsy
  | NonCallable
  | OutsideCallable

text \<open>
  Everything the scripts read from their surroundings. The prompts are built once at
  import time from the profile files. \<open>completions_create\<close> and \<open>completions_parse\<close>
  answer a request given the requests made before it; \<open>completions_parse\<close> gives the
  \<^verbatim>\<open>parsed\<close> attribute of the reply, which is \<^verbatim>\<open>None\<close> when the judge refused.
  \<open>requests_post\<close> is the outcome of the n-th notification request. \<open>other_globals\<close>
  are the module-level names besides the three notification functions (imports, constants,
  the loaded profile, \<^verbatim>\<open>handle_tool_calls\<close> and \<^verbatim>\<open>chat\<close>); \<open>call_outside\<close> is what
  calling one of the callables among them returns (\<open>None\<close> when the returned object is not
  serialisable); the effects of such a call are left out. \<open>repr_container\<close> and
  \<open>str_history\<close> are Python's \<^verbatim>\<open>str\<close> of a list or dict. The libraries read the
  lists they are given and do not write to them.
\<close>

record env =
  pushover_user :: "string option"
  pushover_token :: "string option"
  system_prompt :: string
  evaluator_system_prompt :: string
  completions_create :: "message list list \<Rightarrow> message list \<Rightarrow> error + response"
  completions_parse :: "message list list \<Rightarrow> message list \<Rightarrow> error + evaluation option"
  json_loads :: "string \<Rightarrow> json option"
  requests_post :: "nat \<Rightarrow> payload \<Rightarrow> http_outcome"
  other_globals :: "string \<Rightarrow> gobj option"
  call_outside :: "string \<Rightarrow> (string \<times> json) list \<Rightarrow> error + json option"
  repr_container :: "json \<Rightarrow> string"
  str_history :: "message list \<Rightarrow> string"

text \<open>
  The mutable world. Python lists are objects: \<open>heap\<close> maps the address of a list to its
  elements and \<open>next_free\<close> is the first address never handed out. \<open>calls\<close> logs the
  message sequence of every \<^verbatim>\<open>chat.completions.create\<close> request, \<open>parses\<close> of every
  judge request, \<open>posts\<close> every notification request, \<open>stdout\<close> every printed line.
\<close>

record state =
  heap :: "nat \<Rightarrow> message list"
  next_free :: nat
  calls :: "message list list"
  parses :: "message list list"
  posts :: "payload list"
  stdout :: "string list"

definition NL :: string where
  "NL = [CHR 0x0A]"

definition print :: "string \<Rightarrow> state \<Rightarrow> state" where
  "print line s = s\<lparr>stdout := stdout s @ [line]\<rparr>"

text \<open>A list display or a concatenation builds a new list object.\<close>

definition new_list :: "message list \<Rightarrow> state \<Rightarrow> nat \<times> state" where
  "new_list xs s =
     (next_free s, s\<lparr>heap := (heap s)(next_free s := xs), next_free := Suc (next_free s)\<rparr>)"

text \<open>\<^verbatim>\<open>messages.append(x)\<close> and \<^verbatim>\<open>messages.extend(xs)\<close> change the object in place.\<close>

definition list_extend :: "nat \<Rightarrow> message list \<Rightarrow> state \<Rightarrow> state" where
  "list_extend a xs s = s\<lparr>heap := (heap s)(a := heap s a @ xs)\<rparr>"

definition dict_message :: "string \<Rightarrow> string \<Rightarrow> message" where
  "dict_message r c = \<lparr>role = r, content = Some c, tool_call_id = None, tool_calls = None\<rparr>"

text \<open>
  The expression all three request builders share:
  \<^verbatim>\<open>[{"role": "system", "content": system}] + history + [{"role": "user", "content": message}]\<close>.
\<close>

definition conversation :: "string \<Rightarrow> message list \<Rightarrow> string \<Rightarrow> message list" where
  "conversation system history message =
     [dict_message ''system'' system] @ history @ [dict_message ''user'' message]"

section \<open>Formatting and serialisation\<close>

text \<open>An f-string field holding a decoded JSON value, or a reply that may be \<^verbatim>\<open>None\<close>.\<close>

definition py_str :: "env \<Rightarrow> json \<Rightarrow> string" where
  "py_str env v =
     (case v of
        JStr t \<Rightarrow> t
      | JNull \<Rightarrow> ''None''
      | JBool b \<Rightarrow> (if b then ''True'' else ''False'')
      | JNum t \<Rightarrow> t
      | _ \<Rightarrow> repr_container env v)"

definition str_opt :: "string option \<Rightarrow> string" where
  "str_opt v = (case v of None \<Rightarrow> ''None'' | Some t \<Rightarrow> t)"

text \<open>
  \<^verbatim>\<open>json.dumps\<close> with its defaults: \<^verbatim>\<open>ensure_ascii\<close>, separators \<^verbatim>\<open>", "\<close> and
  \<^verbatim>\<open>": "\<close>. Outside the printable ASCII range a character is written
  \<^verbatim>\<open>\u00xx\<close> unless it has a short escape.
\<close>

definition hex_digit :: "nat \<Rightarrow> char" where
  "hex_digit d = (if d < 10 then char_of (48 + d) else char_of (87 + d))"

definition escape_char :: "char \<Rightarrow> string" where
  "escape_char c =
     (if c = CHR 0x5C then [CHR 0x5C, CHR 0x5C]
      else if c = CHR 0x22 then [CHR 0x5C, CHR 0x22]
      else if c = CHR 0x08 then [CHR 0x5C, CHR ''b'']
      else if c = CHR 0x0C then [CHR 0x5C, CHR ''f'']
      else if c = CHR 0x0A then [CHR 0x5C, CHR ''n'']
      else if c = CHR 0x0D then [CHR 0x5C, CHR ''r'']
      else if c = CHR 0x09 then [CHR 0x5C, CHR ''t'']
      else if (of_char c :: nat) < 32 \<or> 126 < (of_char c :: nat)
        then [CHR 0x5C, CHR ''u'', CHR ''0'', CHR ''0'',
              hex_digit (of_char c div 16), hex_digit (of_char c mod 16)]
      else [c])"

definition encode_string :: "string \<Rightarrow> string" where
  "encode_string t = [CHR 0x22] @ concat (map escape_char t) @ [CHR 0x22]"

fun json_dumps :: "json \<Rightarrow> string"
  and dumps_items :: "json list \<Rightarrow> string"
  and dumps_members :: "(string \<times> json) list \<Rightarrow> string" where
  "json_dumps JNull = ''null''"
| "json_dumps (JBool b) = (if b then ''true'' else ''false'')"
| "json_dumps (JNum t) = t"
| "json_dumps (JStr t) = encode_string t"
| "json_dumps (JArr vs) = ''['' @ dumps_items vs @ '']''"
| "json_dumps (JObj kvs) = ''{'' @ dumps_members kvs @ ''}''"
| "dumps_items [] = []"
| "dumps_items [v] = json_dumps v"
| "dumps_items (v # w # vs) = json_dumps v @ '', '' @ dumps_items (w # vs)"
| "dumps_members [] = []"
| "dumps_members [(k, v)] = encode_string k @ '': '' @ json_dumps v"
| "dumps_members ((k, v) # kv # kvs) =
     encode_string k @ '': '' @ json_dumps v @ '', '' @ dumps_members (kv # kvs)"

section \<open>connections-chat/app.py: notifications and tool functions\<close>

text \<open>\<^verbatim>\<open>not pushover_user\<close>: the variable is \<^verbatim>\<open>None\<close> or the empty string.\<close>

definition not_set :: "string option \<Rightarrow> bool" where
  "not_set v = (v = None \<or> v = Some [])"

definition found_or_missing :: "string option \<Rightarrow> string" where
  "found_or_missing v = (if not_set v then ''MISSING'' else ''Found'')"

definition tick :: string where
  "tick = [CHR 0xE2, CHR 0x9C, CHR 0x93]"

definition cross :: string where
  "cross = [CHR 0xE2, CHR 0x9C, CHR 0x97]"

text \<open>
  \<^verbatim>\<open>push(message)\<close>. Every path returns \<^verbatim>\<open>None\<close>: the function only changes the world.
  Both \<^verbatim>\<open>except\<close> clauses print and fall through, so nothing raised by the request
  leaves the function.
\<close>

definition push :: "env \<Rightarrow> json \<Rightarrow> state \<Rightarrow> state" where
  "push env message s =
     (let s = print (''Push: '' @ py_str env message) s in
      if not_set (pushover_user env) \<or> not_set (pushover_token env) then
        let s = print ''ERROR: Pushover credentials not configured. Cannot send push notification.'' s;
            s = print (''  pushover_user: '' @ found_or_missing (pushover_user env)) s;
            s = print (''  pushover_token: '' @ found_or_missing (pushover_token env)) s
        in s
      else
        let payload = \<lparr>payload_user = pushover_user env, payload_token = pushover_token env,
                       payload_message = message\<rparr>;
            outcome = requests_post env (length (posts s)) payload;
            s = s\<lparr>posts := posts s @ [payload]\<rparr>
        in (case outcome of
              Delivered \<Rightarrow> print (tick @ '' Push notification sent successfully'') s
            | Refused errors \<Rightarrow> print (cross @ '' Push notification failed: '' @ errors) s
            | Request_failed e \<Rightarrow> print (cross @ '' Error sending push notification: '' @ e) s
            | Unexpected_failure e \<Rightarrow> print (cross @ '' Unexpected error: '' @ e) s))"

definition recorded_ok :: json where
  "recorded_ok = JObj [(''recorded'', JStr ''ok'')]"

definition record_user_details :: "env \<Rightarrow> json \<Rightarrow> json \<Rightarrow> json \<Rightarrow> state \<Rightarrow> json \<times> state" where
  "record_user_details env email name notes s =
     (recorded_ok,
      push env (JStr (''Recording interest from '' @ py_str env name @ '' with email ''
                      @ py_str env email @ '' and notes '' @ py_str env notes)) s)"

definition record_unknown_question :: "env \<Rightarrow> json \<Rightarrow> state \<Rightarrow> json \<times> state" where
  "record_unknown_question env question s =
     (recorded_ok,
      push env (JStr (''Recording '' @ py_str env question @ '' asked that I couldn't answer'')) s)"

section \<open>connections-chat/app.py: the tool call handler\<close>

text \<open>
  \<^verbatim>\<open>globals().get(tool_name)\<close>: the lookup goes through the whole module namespace, of
  which the three \<^verbatim>\<open>def\<close>s below are the part embedded here. For a name that is not
  bound, \<^verbatim>\<open>get\<close> returns \<^verbatim>\<open>None\<close>, which is falsy.
\<close>

definition globals_get :: "env \<Rightarrow> string \<Rightarrow> gobj" where
  "globals_get env n =
     (if n = ''push'' then Function Push
      else if n = ''record_user_details'' then Function Record_user_details
      else if n = ''record_unknown_question'' then Function Record_unknown_question
      else (case other_globals env n of None \<Rightarrow> Falsy | Some obj \<Rightarrow> obj))"

text \<open>The names advertised to the model in \<^verbatim>\<open>tools\<close>.\<close>

definition tools :: "string list" where
  "tools = [''record_user_details'', ''record_unknown_question'']"

text \<open>
  Binding \<^verbatim>\<open>**arguments\<close> to a signature: a keyword the function does not declare, or a
  required parameter left out, is a \<^verbatim>\<open>TypeError\<close> raised before the body runs.
\<close>

definition unexpected_keyword :: "string list \<Rightarrow> (string \<times> json) list \<Rightarrow> bool" where
  "unexpected_keyword params kwargs = list_ex (\<lambda>k. k \<notin> set params) (map fst kwargs)"

definition or_default :: "json \<Rightarrow> json option \<Rightarrow> json" where
  "or_default d v = (case v of None \<Rightarrow> d | Some x \<Rightarrow> x)"

definition call_function :: "env \<Rightarrow> func \<Rightarrow> (string \<times> json) list \<Rightarrow> state \<Rightarrow> (error + json) \<times> state" where
  "call_function env f kwargs s =
     (case f of
        Push \<Rightarrow>
          if unexpected_keyword [''message''] kwargs then (Inl TypeError, s)
          else (case map_of kwargs ''message'' of
                  None \<Rightarrow> (Inl TypeError, s)
                | Some message \<Rightarrow> (Inr JNull, push env message s))
      | Record_user_details \<Rightarrow>
          if unexpected_keyword [''email'', ''name'', ''notes''] kwargs then (Inl TypeError, s)
          else (case map_of kwargs ''email'' of
                  None \<Rightarrow> (Inl TypeError, s)
                | Some email \<Rightarrow>
                    let (result, s') =
                          record_user_details env email
                            (or_default (JStr ''Name not provided'') (map_of kwargs ''name''))
                            (or_default (JStr ''not provided'') (map_of kwargs ''notes'')) s
                    in (Inr result, s'))
      | Record_unknown_question \<Rightarrow>
          if unexpected_keyword [''question''] kwargs then (Inl TypeError, s)
          else (case map_of kwargs ''question'' of
                  None \<Rightarrow> (Inl TypeError, s)
                | Some question \<Rightarrow>
                    let (result, s') = record_unknown_question env question s
                    in (Inr result, s')))"

text \<open>
  \<^verbatim>\<open>tool(**arguments)\<close> for a truthy \<^verbatim>\<open>tool\<close>. The result is \<open>None\<close> when the object
  returned cannot be serialised.
\<close>

definition call_tool :: "env \<Rightarrow> string \<Rightarrow> gobj \<Rightarrow> json \<Rightarrow> state \<Rightarrow> (error + json option) \<times> state" where
  "call_tool env tool_name tool arguments s =
     (case arguments of
        JObj kwargs \<Rightarrow>
          (case tool of
             Function f \<Rightarrow>
               (case call_function env f kwargs s of
                  (Inl e, s') \<Rightarrow> (Inl e, s')
                | (Inr result, s') \<Rightarrow> (Inr (Some result), s'))
           | OutsideCallable \<Rightarrow> (call_outside env tool_name kwargs, s)
           | _ \<Rightarrow> (Inl TypeError, s))
      | _ \<Rightarrow> (Inl TypeError, s))"

text \<open>\<^verbatim>\<open>if tool:\<close>\<close>

definition truthy :: "gobj \<Rightarrow> bool" where
  "truthy tool = (tool \<noteq> Falsy)"

text \<open>
  The body of the \<^verbatim>\<open>for\<close> loop of \<^verbatim>\<open>handle_tool_calls\<close>: one request in, one tool
  message out, or the exception that leaves the loop.
\<close>

definition dispatch :: "env \<Rightarrow> tool_call \<Rightarrow> state \<Rightarrow> (error + message) \<times> state" where
  "dispatch env tool_call s =
     (let tool_name = fn_name tool_call in
      case json_loads env (fn_arguments tool_call) of
        None \<Rightarrow> (Inl JSONDecodeError, s)
      | Some arguments \<Rightarrow>
          let s = print (''Tool called: '' @ tool_name) s;
              tool = globals_get env tool_name
          in (case (if truthy tool then call_tool env tool_name tool arguments s
                    else (Inr (Some (JObj [])), s)) of
                (Inl e, s') \<Rightarrow> (Inl e, s')
              | (Inr None, s') \<Rightarrow> (Inl TypeError, s')
              | (Inr (Some result), s') \<Rightarrow>
                  (Inr \<lparr>role = ''tool'', content = Some (json_dumps result),
                        tool_call_id = Some (call_id tool_call), tool_calls = None\<rparr>, s')))"

fun handle_tool_calls_loop :: "env \<Rightarrow> tool_call list \<Rightarrow> message list \<Rightarrow> state \<Rightarrow> (error + message list) \<times> state" where
  "handle_tool_calls_loop env [] results s = (Inr results, s)"
| "handle_tool_calls_loop env (tool_call # rest) results s =
     (case dispatch env tool_call s of
        (Inl e, s') \<Rightarrow> (Inl e, s')
      | (Inr result, s') \<Rightarrow> handle_tool_calls_loop env rest (results @ [result]) s')"

text \<open>Iterating over \<^verbatim>\<open>None\<close> is a \<^verbatim>\<open>TypeError\<close>.\<close>

definition handle_tool_calls :: "env \<Rightarrow> tool_call list option \<Rightarrow> state \<Rightarrow> (error + message list) \<times> state" where
  "handle_tool_calls env tcs s =
     (case tcs of
        None \<Rightarrow> (Inl TypeError, s)
      | Some requests \<Rightarrow> handle_tool_calls_loop env requests [] s)"

section \<open>connections-chat/app.py: the chat loop\<close>

text \<open>
  One pass through the body of \<^verbatim>\<open>while not done\<close>, for the list object \<open>messages\<close>.
  \<open>None\<close>: \<^verbatim>\<open>done\<close> is still false. \<open>Some (Inr text)\<close>: \<^verbatim>\<open>done\<close> was set, and the
  \<^verbatim>\<open>return\<close> after the loop yields the content of this response. \<open>Some (Inl e)\<close>: an
  exception left the loop.
\<close>

definition chat_body :: "env \<Rightarrow> nat \<Rightarrow> state \<Rightarrow> (error + string option) option \<times> state" where
  "chat_body env messages s =
     (let request = heap s messages;
          reply = completions_create env (calls s) request;
          s = s\<lparr>calls := calls s @ [request]\<rparr>
      in case reply of
           Inl e \<Rightarrow> (Some (Inl e), s)
         | Inr response \<Rightarrow>
             if finish_reason response = ''tool_calls'' then
               let message_obj = response_message response in
               (case handle_tool_calls env (tool_calls message_obj) s of
                  (Inl e, s') \<Rightarrow> (Some (Inl e), s')
                | (Inr results, s') \<Rightarrow>
                    (None, list_extend messages results (list_extend messages [message_obj] s')))
             else (Some (Inr (content (response_message response))), s))"

text \<open>
  The loop has no bound of its own: it ends when the model stops asking for tools. The
  first argument counts the passes still allowed; the result \<open>None\<close> means they were used
  up with \<^verbatim>\<open>done\<close> still false.
\<close>

fun chat_loop :: "nat \<Rightarrow> env \<Rightarrow> nat \<Rightarrow> state \<Rightarrow> (error + string option) option \<times> state" where
  "chat_loop 0 env messages s = (None, s)"
| "chat_loop (Suc n) env messages s =
     (case chat_body env messages s of
        (None, s') \<Rightarrow> chat_loop n env messages s'
      | (Some r, s') \<Rightarrow> (Some r, s'))"

text \<open>\<^verbatim>\<open>chat(message, history)\<close>; \<open>history\<close> is the address of the caller's list.\<close>

definition chat :: "nat \<Rightarrow> env \<Rightarrow> string \<Rightarrow> nat \<Rightarrow> state \<Rightarrow> (error + string option) option \<times> state" where
  "chat n env message history s =
     (let (messages, s) = new_list (conversation (system_prompt env) (heap s history) message) s
      in chat_loop n env messages s)"

section \<open>profile-chatbot.py: the gated chat\<close>

definition evaluator_user_prompt :: "env \<Rightarrow> string option \<Rightarrow> string \<Rightarrow> message list \<Rightarrow> string" where
  "evaluator_user_prompt env reply message history =
     (let user_prompt = ''Here's the conversation between the User and the Agent: '' @ NL @ NL
                        @ str_history env history @ NL @ NL;
          user_prompt = user_prompt @ ''Here's the latest message from the User: '' @ NL @ NL
                        @ message @ NL @ NL;
          user_prompt = user_prompt @ ''Here's the latest response from the Agent: '' @ NL @ NL
                        @ str_opt reply @ NL @ NL;
          user_prompt = user_prompt
                        @ ''Please evaluate the response, replying with whether it is acceptable and your feedback.''
      in user_prompt)"

text \<open>
  \<^verbatim>\<open>evaluate(reply, message, history)\<close>: one judge request. An exception of the
  \<^verbatim>\<open>parse\<close> call is not caught here.
\<close>

definition evaluate :: "env \<Rightarrow> string option \<Rightarrow> string \<Rightarrow> nat \<Rightarrow> state \<Rightarrow> (error + evaluation option) \<times> state" where
  "evaluate env reply message history s =
     (let (messages, s) =
            new_list ([dict_message ''system'' (evaluator_system_prompt env)]
                      @ [dict_message ''user'' (evaluator_user_prompt env reply message (heap s history))]) s;
          request = heap s messages;
          parsed = completions_parse env (parses s) request
      in (parsed, s\<lparr>parses := parses s @ [request]\<rparr>))"

text \<open>\<^verbatim>\<open>rerun(reply, message, history, feedback)\<close>: one more completion, returned as it is.\<close>

definition rerun :: "env \<Rightarrow> string option \<Rightarrow> string \<Rightarrow> nat \<Rightarrow> string \<Rightarrow> state \<Rightarrow> (error + string option) \<times> state" where
  "rerun env reply message history fb s =
     (let updated_system_prompt =
            system_prompt env @ NL @ NL @ ''## Previous answer rejected'' @ NL
            @ ''You just tried to reply, but the quality control rejected your reply'' @ NL;
          updated_system_prompt =
            updated_system_prompt @ ''## Your attempted answer:'' @ NL @ str_opt reply @ NL @ NL;
          updated_system_prompt =
            updated_system_prompt @ ''## Reason for rejection:'' @ NL @ fb @ NL @ NL;
          (messages, s) = new_list (conversation updated_system_prompt (heap s history) message) s;
          request = heap s messages;
          result = completions_create env (calls s) request;
          s = s\<lparr>calls := calls s @ [request]\<rparr>
      in case result of
           Inl e \<Rightarrow> (Inl e, s)
         | Inr response \<Rightarrow> (Inr (content (response_message response)), s))"

text \<open>The system prompt that \<^verbatim>\<open>rerun\<close> builds in its first three statements.\<close>

definition rejection_context :: "env \<Rightarrow> string option \<Rightarrow> string \<Rightarrow> string" where
  "rejection_context env reply fb =
     ((system_prompt env @ NL @ NL @ ''## Previous answer rejected'' @ NL
       @ ''You just tried to reply, but the quality control rejected your reply'' @ NL)
      @ ''## Your attempted answer:'' @ NL @ str_opt reply @ NL @ NL)
     @ ''## Reason for rejection:'' @ NL @ fb @ NL @ NL"

definition pig_latin :: string where
  "pig_latin = NL @ NL @ ''Everything in your reply needs to be in pig latin - ''
               @ ''              it is mandatory that you respond only and entirely in pig latin''"

text \<open>
  \<^verbatim>\<open>chat(message, history)\<close> of the profile chatbot. \<^verbatim>\<open>"patent" in message\<close> is
  the substring test. Reading \<^verbatim>\<open>is_acceptable\<close> from a \<^verbatim>\<open>None\<close> evaluation is an
  \<^verbatim>\<open>AttributeError\<close>.
\<close>

definition chat_profile :: "env \<Rightarrow> string \<Rightarrow> nat \<Rightarrow> state \<Rightarrow> (error + string option) \<times> state" where
  "chat_profile env message history s =
     (let system = (if sublist ''patent'' message then system_prompt env @ pig_latin
                    else system_prompt env);
          (messages, s) = new_list (conversation system (heap s history) message) s;
          request = heap s messages;
          result = completions_create env (calls s) request;
          s = s\<lparr>calls := calls s @ [request]\<rparr>
      in case result of
           Inl e \<Rightarrow> (Inl e, s)
         | Inr response \<Rightarrow>
             let reply = content (response_message response) in
             (case evaluate env reply message history s of
                (Inl e, s') \<Rightarrow> (Inl e, s')
              | (Inr None, s') \<Rightarrow> (Inl AttributeError, s')
              | (Inr (Some evaluation), s') \<Rightarrow>
                  if is_acceptable evaluation
                  then (Inr reply, print ''Passed evaluation - returning reply'' s')
                  else rerun env reply message history (feedback evaluation)
                         (print (feedback evaluation) (print ''Failed evaluation - retrying'' s'))))"

section \<open>Stub collaborators and concrete inputs\<close>

text \<open>
  A model stub that answers its first request with a given response and every later one
  with a plain stop saying \<open>Thanks!\<close>; a judge stub with a fixed verdict; a JSON decoder
  that knows two argument texts; a notification service with a fixed outcome.
\<close>

definition thanks :: response where
  "thanks = \<lparr>finish_reason = ''stop'',
             response_message = \<lparr>role = ''assistant'', content = Some ''Thanks!'',
                                  tool_call_id = None, tool_calls = None\<rparr>\<rparr>"

definition email_arguments :: json where
  "email_arguments = JObj [(''email'', JStr ''a@b.com'')]"

definition message_arguments :: json where
  "message_arguments = JObj [(''message'', JStr ''hi'')]"

definition stub_env :: "response \<Rightarrow> (error + evaluation option) \<Rightarrow> http_outcome \<Rightarrow> env" where
  "stub_env first verdict outcome =
     \<lparr>pushover_user = Some ''u_1'', pushover_token = Some ''a_1'',
      system_prompt = ''You are acting as Anjani Prakash.'',
      evaluator_system_prompt = ''You are an evaluator.'',
      completions_create = (\<lambda>log request. if log = [] then Inr first else Inr thanks),
      completions_parse = (\<lambda>log request. verdict),
      json_loads = (\<lambda>t. if t = json_dumps email_arguments then Some email_arguments
                          else if t = json_dumps message_arguments then Some message_arguments
                          else None),
      requests_post = (\<lambda>n p. outcome),
      other_globals = (\<lambda>n. if n = ''name'' then Some NonCallable else None),
      call_outside = (\<lambda>n kwargs. Inl (LibraryError ''Exception'')),
      repr_container = (\<lambda>v. ''[...]''),
      str_history = (\<lambda>h. ''[...]'')\<rparr>"

definition request_email :: tool_call where
  "request_email = \<lparr>call_id = ''call_1'', fn_name = ''record_user_details'',
                    fn_arguments = json_dumps email_arguments\<rparr>"

definition request_push :: tool_call where
  "request_push = \<lparr>call_id = ''call_2'', fn_name = ''push'',
                   fn_arguments = json_dumps message_arguments\<rparr>"

definition request_unknown :: tool_call where
  "request_unknown = \<lparr>call_id = ''call_3'', fn_name = ''lookup_weather'',
                      fn_arguments = json_dumps message_arguments\<rparr>"



text \<open>A world in which the caller's history is the empty list at address 0.\<close>

definition s0 :: state where
  "s0 = \<lparr>heap = (\<lambda>a. []), next_free = 1, calls = [], parses = [], posts = [], stdout = []\<rparr>"


definition request_name :: tool_call where
  "request_name = \<lparr>call_id = ''call_6'', fn_name = ''name'',
                   fn_arguments = json_dumps message_arguments\<rparr>"

definition env_plain :: env where
  "env_plain = stub_env thanks (Inr None) Delivered"




text \<open>Stubs for the gated chat: a candidate reply and the verdicts a judge can give.\<close>

definition candidate :: response where
  "candidate = \<lparr>finish_reason = ''stop'',
                response_message = \<lparr>role = ''assistant'', content = Some ''Hi there'',
                                     tool_call_id = None, tool_calls = None\<rparr>\<rparr>"

definition accepted :: evaluation where
  "accepted = \<lparr>is_acceptable = True, feedback = ''fine''\<rparr>"

definition rejected :: evaluation where
  "rejected = \<lparr>is_acceptable = False, feedback = ''too informal''\<rparr>"

definition env_accept :: env where
  "env_accept = stub_env candidate (Inr (Some accepted)) Delivered"

definition env_reject :: env where
  "env_reject = stub_env candidate (Inr (Some rejected)) Delivered"

definition env_unparsed :: env where
  "env_unparsed = stub_env candidate (Inl (LibraryError ''ValidationError'')) Delivered"

definition env_refused :: env where
  "env_refused = stub_env candidate (Inr None) Delivered"

section \<open>Frame and result lemmas\<close>



lemma print_frame [simp]:
  "heap (print l s) = heap s" "next_free (print l s) = next_free s"
  "calls (print l s) = calls s" "parses (print l s) = parses s" "posts (print l s) = posts s"
  by (simp_all add: print_def)

lemma push_frame [simp]:
  "heap (push env v s) = heap s" "next_free (push env v s) = next_free s"
  "calls (push env v s) = calls s" "parses (push env v s) = parses s"
  by (simp_all add: push_def Let_def split: http_outcome.splits)










lemma list_extend_frame [simp]:
  "heap (list_extend a xs s) a = heap s a @ xs"
  "b \<noteq> a \<Longrightarrow> heap (list_extend a xs s) b = heap s b"
  "next_free (list_extend a xs s) = next_free s"
  "calls (list_extend a xs s) = calls s"
  "parses (list_extend a xs s) = parses s"
  by (simp_all add: list_extend_def)




lemma new_list_frame [simp]:
  "fst (new_list xs s) = next_free s"
  "heap (snd (new_list xs s)) (next_free s) = xs"
  "a \<noteq> next_free s \<Longrightarrow> heap (snd (new_list xs s)) a = heap s a"
  "next_free (snd (new_list xs s)) = Suc (next_free s)"
  "calls (snd (new_list xs s)) = calls s"
  "parses (snd (new_list xs s)) = parses s"
  by (simp_all add: new_list_def)

lemma chat_unfold:
  "chat n env message history s =
     chat_loop n env (next_free s)
       (snd (new_list (conversation (system_prompt env) (heap s history) message) s))"
  by (simp add: chat_def new_list_def)

section \<open>The chat loop: plain answers, tool rounds, the caller's history\<close>

text \<open>
  Claim C4. When the first response to the turn's request has a finish reason other than
  \<open>tool_calls\<close>, \<open>chat\<close> returns after that one request (any positive number of allowed
  passes is enough): exactly one entry is added to the log of model calls, and the value
  returned is the content of that response, unchanged.
\<close>

theorem chat_without_tool_calls:
  assumes "completions_create env (calls s)
             (conversation (system_prompt env) (heap s history) message) = Inr response"
    and "finish_reason response \<noteq> ''tool_calls''"
  shows "fst (chat (Suc n) env message history s) = Some (Inr (content (response_message response)))
       \<and> calls (snd (chat (Suc n) env message history s))
           = calls s @ [conversation (system_prompt env) (heap s history) message]"
  using assms by (simp add: chat_unfold chat_body_def Let_def)

text \<open>Claim C4, at a concrete turn: the stub answers \<open>Thanks!\<close> with finish reason \<open>stop\<close>.\<close>

theorem chat_without_tool_calls_witness:
  "completions_create env_plain (calls s0)
     (conversation (system_prompt env_plain) (heap s0 0) ''Hello'') = Inr thanks
   \<and> finish_reason thanks \<noteq> ''tool_calls''
   \<and> fst (chat (Suc 0) env_plain ''Hello'' 0 s0) = Some (Inr (Some ''Thanks!''))
   \<and> calls (snd (chat (Suc 0) env_plain ''Hello'' 0 s0))
       = [[dict_message ''system'' ''You are acting as Anjani Prakash.'', dict_message ''user'' ''Hello'']]"
proof -
  have a: "completions_create env_plain (calls s0)
     (conversation (system_prompt env_plain) (heap s0 0) ''Hello'') = Inr thanks"
    by (simp add: env_plain_def stub_env_def s0_def)
  have b: "finish_reason thanks \<noteq> ''tool_calls''" by (simp add: thanks_def)
  from chat_without_tool_calls [OF a b, of 0] a b show ?thesis
    by (simp add: thanks_def env_plain_def stub_env_def s0_def conversation_def)
qed







lemma evaluate_frame:
  "a < next_free s \<Longrightarrow> heap (snd (evaluate env reply message history s)) a = heap s a"
  "next_free (snd (evaluate env reply message history s)) = Suc (next_free s)"
  "calls (snd (evaluate env reply message history s)) = calls s"
  "parses (snd (evaluate env reply message history s))
     = parses s @ [[dict_message ''system'' (evaluator_system_prompt env),
                    dict_message ''user'' (evaluator_user_prompt env reply message (heap s history))]]"
  "fst (evaluate env reply message history s)
     = completions_parse env (parses s)
         [dict_message ''system'' (evaluator_system_prompt env),
          dict_message ''user'' (evaluator_user_prompt env reply message (heap s history))]"
  by (simp_all add: evaluate_def new_list_def Let_def)



lemma chat_profile_unfold:
  "chat_profile env message history s =
     (let request = conversation (if sublist ''patent'' message then system_prompt env @ pig_latin
                                  else system_prompt env) (heap s history) message;
          s2 = (snd (new_list request s))\<lparr>calls := calls s @ [request]\<rparr>
      in case completions_create env (calls s) request of
           Inl e \<Rightarrow> (Inl e, s2)
         | Inr response \<Rightarrow>
             (let reply = content (response_message response);
                  ev = evaluate env reply message history s2
              in case fst ev of
                   Inl e \<Rightarrow> (Inl e, snd ev)
                 | Inr None \<Rightarrow> (Inl AttributeError, snd ev)
                 | Inr (Some evaluation) \<Rightarrow>
                     if is_acceptable evaluation
                     then (Inr reply, print ''Passed evaluation - returning reply'' (snd ev))
                     else rerun env reply message history (feedback evaluation)
                            (print (feedback evaluation) (print ''Failed evaluation - retrying'' (snd ev)))))"
  by (simp add: chat_profile_def new_list_def Let_def split: prod.splits sum.splits option.splits)








section \<open>Dispatch by name\<close>

lemma dispatch_unbound:
  assumes "json_loads env (fn_arguments tc) = Some arguments"
    and "globals_get env (fn_name tc) = Falsy"
  shows "dispatch env tc s
         = (Inr \<lparr>role = ''tool'', content = Some ''{}'', tool_call_id = Some (call_id tc),
                  tool_calls = None\<rparr>,
            print (''Tool called: '' @ fn_name tc) s)"
  using assms by (simp add: dispatch_def truthy_def Let_def)

text \<open>
  Claim C3, as amended. For a request whose arguments decode and whose name the module
  namespace does not bind (or binds to a falsy value), the result is a tool message with
  content \<open>{}\<close> and the request's id, and the loop of \<open>handle_tool_calls\<close> goes on with
  the next request.
\<close>

theorem unbound_name_empty_result:
  assumes "json_loads env (fn_arguments tc) = Some arguments"
    and "globals_get env (fn_name tc) = Falsy"
  shows "dispatch env tc s
         = (Inr \<lparr>role = ''tool'', content = Some ''{}'', tool_call_id = Some (call_id tc),
                  tool_calls = None\<rparr>,
            print (''Tool called: '' @ fn_name tc) s)
       \<and> handle_tool_calls_loop env (tc # rest) results s
         = handle_tool_calls_loop env rest
             (results @ [\<lparr>role = ''tool'', content = Some ''{}'', tool_call_id = Some (call_id tc),
                           tool_calls = None\<rparr>])
             (print (''Tool called: '' @ fn_name tc) s)"
  using dispatch_unbound [OF assms] by simp

text \<open>
  Claim C3 as amended, for a request naming \<open>lookup_weather\<close>, which nothing defines.
\<close>

theorem unbound_name_empty_result_witness:
  "json_loads env_plain (fn_arguments request_unknown) = Some message_arguments
   \<and> globals_get env_plain (fn_name request_unknown) = Falsy
   \<and> fst (dispatch env_plain request_unknown s0)
       = Inr \<lparr>role = ''tool'', content = Some ''{}'', tool_call_id = Some ''call_3'',
               tool_calls = None\<rparr>
   \<and> handle_tool_calls_loop env_plain [request_unknown, request_email] [] s0
       = handle_tool_calls_loop env_plain [request_email]
           [\<lparr>role = ''tool'', content = Some ''{}'', tool_call_id = Some ''call_3'',
              tool_calls = None\<rparr>]
           (print ''Tool called: lookup_weather'' s0)"
proof -
  have a: "json_loads env_plain (fn_arguments request_unknown) = Some message_arguments"
    by code_simp
  have b: "globals_get env_plain (fn_name request_unknown) = Falsy"
    by code_simp
  have c: "call_id request_unknown = ''call_3''" "fn_name request_unknown = ''lookup_weather''"
    by (simp_all add: request_unknown_def)
  from unbound_name_empty_result [OF a b, of s0 "[request_email]" "[]"] a b c
  show ?thesis by simp
qed

text \<open>
  Claim C3 as stated fails. \<open>push\<close> is not one of the two advertised tools, yet a
  request naming it is not answered with \<open>{}\<close>: the function runs, a notification is
  sent and the result is \<open>null\<close>. \<open>name\<close> is not advertised either; it is a string of
  the module, calling it is a \<open>TypeError\<close>, and the exception ends the turn.
\<close>

theorem unadvertised_name_counterexample:
  "fn_name request_push \<notin> set tools
   \<and> fst (dispatch env_plain request_push s0)
       = Inr \<lparr>role = ''tool'', content = Some ''null'', tool_call_id = Some ''call_2'',
               tool_calls = None\<rparr>
   \<and> posts (snd (dispatch env_plain request_push s0))
       = [\<lparr>payload_user = Some ''u_1'', payload_token = Some ''a_1'',
           payload_message = JStr ''hi''\<rparr>]
   \<and> fn_name request_name \<notin> set tools
   \<and> fst (dispatch env_plain request_name s0) = Inl TypeError
   \<and> fst (handle_tool_calls env_plain (Some [request_name, request_email]) s0) = Inl TypeError"
  by code_simp

text \<open>
  Claim C8. The lookup is by name in the whole module namespace: a request naming
  \<open>push\<close>, which is not among the advertised tools, with arguments that decode to
  \<open>{"message": v}\<close>, makes \<open>handle_tool_calls\<close> run \<open>push\<close> on the argument \<open>v\<close>
  chosen by the model; the result sent back is \<open>null\<close>, the serialisation of what
  \<open>push\<close> returns, and not the empty result.
\<close>

theorem dispatch_reaches_push:
  assumes "fn_name tc = ''push''"
    and "json_loads env (fn_arguments tc) = Some (JObj [(''message'', v)])"
  shows "fn_name tc \<notin> set tools
       \<and> dispatch env tc s
         = (Inr \<lparr>role = ''tool'', content = Some ''null'', tool_call_id = Some (call_id tc),
                  tool_calls = None\<rparr>,
            push env v (print ''Tool called: push'' s))
       \<and> handle_tool_calls env (Some [tc]) s
         = (Inr [\<lparr>role = ''tool'', content = Some ''null'', tool_call_id = Some (call_id tc),
                   tool_calls = None\<rparr>],
            push env v (print ''Tool called: push'' s))"
proof -
  have "fn_name tc \<notin> set tools" using assms(1) by (simp add: tools_def)
  moreover have d: "dispatch env tc s
         = (Inr \<lparr>role = ''tool'', content = Some ''null'', tool_call_id = Some (call_id tc),
                  tool_calls = None\<rparr>,
            push env v (print ''Tool called: push'' s))"
    using assms
    by (simp add: dispatch_def globals_get_def truthy_def call_tool_def call_function_def
        unexpected_keyword_def Let_def)
  ultimately show ?thesis by (simp add: handle_tool_calls_def)
qed

text \<open>
  Claim C8, for a request naming \<open>push\<close> with message \<open>hi\<close>: the notification is posted.
\<close>

theorem dispatch_reaches_push_witness:
  "fn_name request_push = ''push''
   \<and> json_loads env_plain (fn_arguments request_push) = Some (JObj [(''message'', JStr ''hi'')])
   \<and> fn_name request_push \<notin> set tools
   \<and> fst (handle_tool_calls env_plain (Some [request_push]) s0)
       = Inr [\<lparr>role = ''tool'', content = Some ''null'', tool_call_id = Some ''call_2'',
                tool_calls = None\<rparr>]
   \<and> snd (handle_tool_calls env_plain (Some [request_push]) s0)
       = push env_plain (JStr ''hi'') (print ''Tool called: push'' s0)
   \<and> posts (push env_plain (JStr ''hi'') (print ''Tool called: push'' s0))
       = [\<lparr>payload_user = Some ''u_1'', payload_token = Some ''a_1'',
           payload_message = JStr ''hi''\<rparr>]"
proof -
  have a: "fn_name request_push = ''push''" by (simp add: request_push_def)
  have b: "json_loads env_plain (fn_arguments request_push) = Some (JObj [(''message'', JStr ''hi'')])"
    by code_simp
  have c: "call_id request_push = ''call_2''" by (simp add: request_push_def)
  have d: "posts (push env_plain (JStr ''hi'') (print ''Tool called: push'' s0))
       = [\<lparr>payload_user = Some ''u_1'', payload_token = Some ''a_1'',
           payload_message = JStr ''hi''\<rparr>]"
    by code_simp
  from dispatch_reaches_push [OF a b, of s0] a b c d show ?thesis by simp
qed


section \<open>The registered handlers, and what can raise\<close>


















section \<open>The gated chat\<close>

lemma rerun_unfold:
  "rerun env reply message history fb s =
     (let request = conversation (rejection_context env reply fb) (heap s history) message;
          s1 = (snd (new_list request s))\<lparr>calls := calls s @ [request]\<rparr>
      in case completions_create env (calls s) request of
           Inl e \<Rightarrow> (Inl e, s1)
         | Inr response \<Rightarrow> (Inr (content (response_message response)), s1))"
  unfolding rerun_def rejection_context_def new_list_def Let_def by (simp split: sum.splits)

lemma rerun_calls:
  "calls (snd (rerun env reply message history fb s))
   = calls s @ [conversation (rejection_context env reply fb) (heap s history) message]"
  "parses (snd (rerun env reply message history fb s)) = parses s"
  by (simp_all add: rerun_unfold Let_def split: sum.splits)

lemma rerun_result:
  "fst (rerun env reply message history fb s)
   = (case completions_create env (calls s)
             (conversation (rejection_context env reply fb) (heap s history) message) of
        Inl e \<Rightarrow> Inl e
      | Inr response \<Rightarrow> Inr (content (response_message response)))"
  by (simp add: rerun_unfold Let_def split: sum.splits)

lemma rejection_context_contains:
  "sublist (str_opt reply) (rejection_context env reply fb)"
  "sublist fb (rejection_context env reply fb)"
  "prefix (system_prompt env) (rejection_context env reply fb)"
proof -
  let ?a = "system_prompt env @ NL @ NL @ ''## Previous answer rejected'' @ NL
             @ ''You just tried to reply, but the quality control rejected your reply'' @ NL
             @ ''## Your attempted answer:'' @ NL"
  let ?b = "NL @ NL @ ''## Reason for rejection:'' @ NL"
  have "sublist (str_opt reply) (?a @ str_opt reply @ (?b @ fb @ NL @ NL))" by (rule sublist_appendI)
  then show "sublist (str_opt reply) (rejection_context env reply fb)"
    unfolding rejection_context_def by (simp only: append_assoc)
  have "sublist fb ((?a @ str_opt reply @ ?b) @ fb @ (NL @ NL))" by (rule sublist_appendI)
  then show "sublist fb (rejection_context env reply fb)"
    unfolding rejection_context_def by (simp only: append_assoc)
  show "prefix (system_prompt env) (rejection_context env reply fb)"
    unfolding rejection_context_def by (simp only: append_assoc prefixI)
qed


text \<open>The gated chat up to the verdict of the judge.\<close>

lemma chat_profile_judged:
  assumes "history < next_free s"
    and "completions_create env (calls s)
           (conversation (if sublist ''patent'' message then system_prompt env @ pig_latin
                          else system_prompt env) (heap s history) message) = Inr response"
  shows "\<exists>s3. chat_profile env message history s
          = (case completions_parse env (parses s)
                    [dict_message ''system'' (evaluator_system_prompt env),
                     dict_message ''user''
                       (evaluator_user_prompt env (content (response_message response)) message
                          (heap s history))] of
               Inl e \<Rightarrow> (Inl e, s3)
             | Inr None \<Rightarrow> (Inl AttributeError, s3)
             | Inr (Some evaluation) \<Rightarrow>
                 if is_acceptable evaluation
                 then (Inr (content (response_message response)),
                       print ''Passed evaluation - returning reply'' s3)
                 else rerun env (content (response_message response)) message history
                        (feedback evaluation)
                        (print (feedback evaluation) (print ''Failed evaluation - retrying'' s3)))
        \<and> heap s3 history = heap s history \<and> history < next_free s3
        \<and> calls s3 = calls s @ [conversation (if sublist ''patent'' message
                                               then system_prompt env @ pig_latin
                                               else system_prompt env) (heap s history) message]
        \<and> parses s3 = parses s @ [[dict_message ''system'' (evaluator_system_prompt env),
                     dict_message ''user''
                       (evaluator_user_prompt env (content (response_message response)) message
                          (heap s history))]]"
proof -
  let ?request = "conversation (if sublist ''patent'' message then system_prompt env @ pig_latin
                                else system_prompt env) (heap s history) message"
  let ?s2 = "(snd (new_list ?request s))\<lparr>calls := calls s @ [?request]\<rparr>"
  let ?reply = "content (response_message response)"
  let ?ev = "evaluate env ?reply message history ?s2"
  from assms(1) have s2: "heap ?s2 history = heap s history" "history < next_free ?s2"
    "parses ?s2 = parses s" "calls ?s2 = calls s @ [?request]"
    by simp_all
  have "chat_profile env message history s
        = (case fst ?ev of
             Inl e \<Rightarrow> (Inl e, snd ?ev)
           | Inr None \<Rightarrow> (Inl AttributeError, snd ?ev)
           | Inr (Some evaluation) \<Rightarrow>
               if is_acceptable evaluation
               then (Inr ?reply, print ''Passed evaluation - returning reply'' (snd ?ev))
               else rerun env ?reply message history (feedback evaluation)
                      (print (feedback evaluation) (print ''Failed evaluation - retrying'' (snd ?ev))))"
    using assms(2) by (simp add: chat_profile_unfold Let_def)
  moreover have "fst ?ev = completions_parse env (parses s)
                    [dict_message ''system'' (evaluator_system_prompt env),
                     dict_message ''user'' (evaluator_user_prompt env ?reply message (heap s history))]"
    using s2 by (simp add: evaluate_frame)
  moreover have "heap (snd ?ev) history = heap s history" "history < next_free (snd ?ev)"
    "calls (snd ?ev) = calls s @ [?request]"
    "parses (snd ?ev) = parses s @ [[dict_message ''system'' (evaluator_system_prompt env),
                     dict_message ''user'' (evaluator_user_prompt env ?reply message (heap s history))]]"
    using s2 by (simp_all add: evaluate_frame)
  ultimately show ?thesis by (intro exI [of _ "snd ?ev"]) (simp only: simp_thms)
qed

text \<open>
  Claim C2. Take a gated turn whose generation request is answered with a candidate reply
  and whose judge request is answered with an evaluation. If the evaluation is acceptable,
  the candidate is returned as it is and the generation request is the only completion
  request of the turn. If it is not, exactly one more completion request is made; its
  system message contains the text of the rejected reply and the feedback, each as a
  contiguous substring; what the turn returns is the content of the answer to that
  request (or the exception it raised). In both cases the judge is asked exactly once.
\<close>

theorem gate_accepts_or_regenerates_once:
  assumes "history < next_free s"
    and "completions_create env (calls s)
           (conversation (if sublist ''patent'' message then system_prompt env @ pig_latin
                          else system_prompt env) (heap s history) message) = Inr response"
    and "completions_parse env (parses s)
           [dict_message ''system'' (evaluator_system_prompt env),
            dict_message ''user''
              (evaluator_user_prompt env (content (response_message response)) message
                 (heap s history))] = Inr (Some ev)"
  shows "(is_acceptable ev \<longrightarrow>
            fst (chat_profile env message history s) = Inr (content (response_message response))
          \<and> calls (snd (chat_profile env message history s))
              = calls s @ [conversation (if sublist ''patent'' message
                                         then system_prompt env @ pig_latin
                                         else system_prompt env) (heap s history) message])
       \<and> (\<not> is_acceptable ev \<longrightarrow>
            calls (snd (chat_profile env message history s))
              = calls s @ [conversation (if sublist ''patent'' message
                                         then system_prompt env @ pig_latin
                                         else system_prompt env) (heap s history) message,
                           conversation (rejection_context env (content (response_message response))
                                           (feedback ev)) (heap s history) message]
          \<and> sublist (str_opt (content (response_message response)))
                (rejection_context env (content (response_message response)) (feedback ev))
          \<and> sublist (feedback ev)
                (rejection_context env (content (response_message response)) (feedback ev))
          \<and> fst (chat_profile env message history s)
              = (case completions_create env
                        (calls s @ [conversation (if sublist ''patent'' message
                                                  then system_prompt env @ pig_latin
                                                  else system_prompt env) (heap s history) message])
                        (conversation (rejection_context env (content (response_message response))
                                         (feedback ev)) (heap s history) message) of
                   Inl e \<Rightarrow> Inl e
                 | Inr regenerated \<Rightarrow> Inr (content (response_message regenerated))))
       \<and> parses (snd (chat_profile env message history s))
           = parses s @ [[dict_message ''system'' (evaluator_system_prompt env),
                          dict_message ''user''
                            (evaluator_user_prompt env (content (response_message response)) message
                               (heap s history))]]"
proof -
  let ?request = "conversation (if sublist ''patent'' message then system_prompt env @ pig_latin
                                else system_prompt env) (heap s history) message"
  let ?judge = "[dict_message ''system'' (evaluator_system_prompt env),
                 dict_message ''user''
                   (evaluator_user_prompt env (content (response_message response)) message
                      (heap s history))]"
  from chat_profile_judged [OF assms(1,2)] obtain s3 where
    j: "chat_profile env message history s
        = (case completions_parse env (parses s) ?judge of
               Inl e \<Rightarrow> (Inl e, s3)
             | Inr None \<Rightarrow> (Inl AttributeError, s3)
             | Inr (Some evaluation) \<Rightarrow>
                 if is_acceptable evaluation
                 then (Inr (content (response_message response)),
                       print ''Passed evaluation - returning reply'' s3)
                 else rerun env (content (response_message response)) message history
                        (feedback evaluation)
                        (print (feedback evaluation) (print ''Failed evaluation - retrying'' s3)))"
    and s3: "heap s3 history = heap s history" "calls s3 = calls s @ [?request]"
      "parses s3 = parses s @ [?judge]"
    by blast
  have c: "chat_profile env message history s
        = (if is_acceptable ev
           then (Inr (content (response_message response)),
                 print ''Passed evaluation - returning reply'' s3)
           else rerun env (content (response_message response)) message history (feedback ev)
                  (print (feedback ev) (print ''Failed evaluation - retrying'' s3)))"
    unfolding j assms(3) by simp
  show ?thesis
  proof (cases "is_acceptable ev")
    case True
    with c s3 show ?thesis by simp
  next
    case False
    with c s3 show ?thesis
      by (simp add: rerun_calls rerun_result rejection_context_contains)
  qed
qed

text \<open>
  Claim C5. When the judge request does not yield an evaluation, the gated turn ends in
  an exception: the one raised by the \<open>parse\<close> call, or \<open>AttributeError\<close> when the
  call returned no parsed object. The candidate is not returned, and the generation
  request remains the only completion request: nothing is regenerated.
\<close>

theorem judge_failure_is_an_error:
  assumes "history < next_free s"
    and "completions_create env (calls s)
           (conversation (if sublist ''patent'' message then system_prompt env @ pig_latin
                          else system_prompt env) (heap s history) message) = Inr response"
  shows "(completions_parse env (parses s)
            [dict_message ''system'' (evaluator_system_prompt env),
             dict_message ''user''
               (evaluator_user_prompt env (content (response_message response)) message
                  (heap s history))] = Inl e \<longrightarrow>
            fst (chat_profile env message history s) = Inl e
          \<and> calls (snd (chat_profile env message history s))
              = calls s @ [conversation (if sublist ''patent'' message
                                         then system_prompt env @ pig_latin
                                         else system_prompt env) (heap s history) message])
       \<and> (completions_parse env (parses s)
            [dict_message ''system'' (evaluator_system_prompt env),
             dict_message ''user''
               (evaluator_user_prompt env (content (response_message response)) message
                  (heap s history))] = Inr None \<longrightarrow>
            fst (chat_profile env message history s) = Inl AttributeError
          \<and> calls (snd (chat_profile env message history s))
              = calls s @ [conversation (if sublist ''patent'' message
                                         then system_prompt env @ pig_latin
                                         else system_prompt env) (heap s history) message])"
proof -
  let ?judge = "[dict_message ''system'' (evaluator_system_prompt env),
                 dict_message ''user''
                   (evaluator_user_prompt env (content (response_message response)) message
                      (heap s history))]"
  from chat_profile_judged [OF assms] obtain s3 where
    j: "chat_profile env message history s
        = (case completions_parse env (parses s) ?judge of
               Inl e \<Rightarrow> (Inl e, s3)
             | Inr None \<Rightarrow> (Inl AttributeError, s3)
             | Inr (Some evaluation) \<Rightarrow>
                 if is_acceptable evaluation
                 then (Inr (content (response_message response)),
                       print ''Passed evaluation - returning reply'' s3)
                 else rerun env (content (response_message response)) message history
                        (feedback evaluation)
                        (print (feedback evaluation) (print ''Failed evaluation - retrying'' s3)))"
    and s3: "calls s3 = calls s @ [conversation (if sublist ''patent'' message
                                               then system_prompt env @ pig_latin
                                               else system_prompt env) (heap s history) message]"
    by blast
  show ?thesis
  proof (intro conjI impI)
    assume "completions_parse env (parses s) ?judge = Inl e"
    with j have "chat_profile env message history s = (Inl e, s3)" by simp
    with s3 show "fst (chat_profile env message history s) = Inl e"
      "calls (snd (chat_profile env message history s))
              = calls s @ [conversation (if sublist ''patent'' message
                                         then system_prompt env @ pig_latin
                                         else system_prompt env) (heap s history) message]"
      by simp_all
  next
    assume "completions_parse env (parses s) ?judge = Inr None"
    with j have "chat_profile env message history s = (Inl AttributeError, s3)" by simp
    with s3 show "fst (chat_profile env message history s) = Inl AttributeError"
      "calls (snd (chat_profile env message history s))
              = calls s @ [conversation (if sublist ''patent'' message
                                         then system_prompt env @ pig_latin
                                         else system_prompt env) (heap s history) message]"
      by simp_all
  qed
qed

text \<open>
  Claim C10. The first completion request of a gated turn is the system message, the
  history and the user message, and the content of the system message is the base system
  prompt followed by the pig latin instruction when \<open>patent\<close> is a substring of the user
  message, and the base system prompt alone otherwise.
\<close>

theorem generation_request_system_message:
  "\<exists>later. calls (snd (chat_profile env message history s))
     = calls s @ (dict_message ''system''
                    (if sublist ''patent'' message then system_prompt env @ pig_latin
                     else system_prompt env)
                  # heap s history @ [dict_message ''user'' message]) # later"
proof -
  let ?request = "conversation (if sublist ''patent'' message then system_prompt env @ pig_latin
                                else system_prompt env) (heap s history) message"
  let ?s2 = "(snd (new_list ?request s))\<lparr>calls := calls s @ [?request]\<rparr>"
  have "\<exists>later. calls (snd (chat_profile env message history s)) = calls s @ ?request # later"
  proof (cases "completions_create env (calls s) ?request")
    case (Inl e)
    then show ?thesis by (simp add: chat_profile_unfold Let_def)
  next
    case (Inr response)
    let ?ev = "evaluate env (content (response_message response)) message history ?s2"
    have ev: "calls (snd ?ev) = calls s @ [?request]" by (simp add: evaluate_frame)
    show ?thesis
    proof (cases "fst ?ev")
      case (Inl e)
      with Inr ev show ?thesis by (simp add: chat_profile_unfold Let_def)
    next
      case verdict: (Inr v)
      show ?thesis
      proof (cases v)
        case None
        with Inr verdict ev show ?thesis by (simp add: chat_profile_unfold Let_def)
      next
        case (Some evaluation)
        with Inr verdict ev show ?thesis
          by (simp add: chat_profile_unfold Let_def rerun_calls)
      qed
    qed
  qed
  then show ?thesis by (simp add: conversation_def)
qed


subsection \<open>Concrete gated turns\<close>

lemma stub_first_reply:
  "completions_create (stub_env first verdict outcome) [] request = Inr first"
  "system_prompt (stub_env first verdict outcome) = ''You are acting as Anjani Prakash.''"
  "evaluator_system_prompt (stub_env first verdict outcome) = ''You are an evaluator.''"
  "completions_parse (stub_env first verdict outcome) log request = verdict"
  "log \<noteq> [] \<Longrightarrow> completions_create (stub_env first verdict outcome) log request = Inr thanks"
  by (simp_all add: stub_env_def)

lemma s0_fields:
  "heap s0 a = []" "calls s0 = []" "parses s0 = []" "next_free s0 = 1"
  by (simp_all add: s0_def)

lemma no_patent_in_hello: "\<not> sublist ''patent'' ''Hello''"
  by code_simp

lemma patent_in_question: "sublist ''patent'' ''Do you hold a patent?''"
  by code_simp

text \<open>
  Claim C2, with a judge that rejects with feedback \<open>too informal\<close>, and with one that
  accepts.
\<close>

theorem gate_accepts_or_regenerates_once_witness:
  "0 < next_free s0
   \<and> completions_create env_reject (calls s0)
        (conversation (if sublist ''patent'' ''Hello'' then system_prompt env_reject @ pig_latin
                       else system_prompt env_reject) (heap s0 0) ''Hello'') = Inr candidate
   \<and> completions_parse env_reject (parses s0)
        [dict_message ''system'' (evaluator_system_prompt env_reject),
         dict_message ''user''
           (evaluator_user_prompt env_reject (content (response_message candidate)) ''Hello''
              (heap s0 0))] = Inr (Some rejected)
   \<and> \<not> is_acceptable rejected
   \<and> fst (chat_profile env_reject ''Hello'' 0 s0) = Inr (Some ''Thanks!'')
   \<and> calls (snd (chat_profile env_reject ''Hello'' 0 s0))
       = [conversation ''You are acting as Anjani Prakash.'' [] ''Hello'',
          conversation (rejection_context env_reject (Some ''Hi there'') ''too informal'') []
            ''Hello'']
   \<and> sublist ''Hi there'' (rejection_context env_reject (Some ''Hi there'') ''too informal'')
   \<and> sublist ''too informal'' (rejection_context env_reject (Some ''Hi there'') ''too informal'')
   \<and> length (parses (snd (chat_profile env_reject ''Hello'' 0 s0))) = 1
   \<and> is_acceptable accepted
   \<and> fst (chat_profile env_accept ''Hello'' 0 s0) = Inr (Some ''Hi there'')
   \<and> calls (snd (chat_profile env_accept ''Hello'' 0 s0))
       = [conversation ''You are acting as Anjani Prakash.'' [] ''Hello'']"
proof -
  have a: "0 < next_free s0" by (simp add: s0_fields)
  have b: "completions_create env_reject (calls s0)
        (conversation (if sublist ''patent'' ''Hello'' then system_prompt env_reject @ pig_latin
                       else system_prompt env_reject) (heap s0 0) ''Hello'') = Inr candidate"
    by (simp add: env_reject_def stub_first_reply s0_fields)
  have c: "completions_parse env_reject (parses s0)
        [dict_message ''system'' (evaluator_system_prompt env_reject),
         dict_message ''user''
           (evaluator_user_prompt env_reject (content (response_message candidate)) ''Hello''
              (heap s0 0))] = Inr (Some rejected)"
    by (simp only: env_reject_def stub_first_reply)
  have b': "completions_create env_accept (calls s0)
        (conversation (if sublist ''patent'' ''Hello'' then system_prompt env_accept @ pig_latin
                       else system_prompt env_accept) (heap s0 0) ''Hello'') = Inr candidate"
    by (simp add: env_accept_def stub_first_reply s0_fields)
  have c': "completions_parse env_accept (parses s0)
        [dict_message ''system'' (evaluator_system_prompt env_accept),
         dict_message ''user''
           (evaluator_user_prompt env_accept (content (response_message candidate)) ''Hello''
              (heap s0 0))] = Inr (Some accepted)"
    by (simp only: env_accept_def stub_first_reply)
  have d: "\<not> is_acceptable rejected" "is_acceptable accepted" "feedback rejected = ''too informal''"
    "content (response_message candidate) = Some ''Hi there''"
    "content (response_message thanks) = Some ''Thanks!''"
    by (simp_all add: rejected_def accepted_def candidate_def thanks_def)
  have e: "system_prompt env_reject = ''You are acting as Anjani Prakash.''"
    "system_prompt env_accept = ''You are acting as Anjani Prakash.''"
    by (simp_all only: env_reject_def env_accept_def stub_first_reply)
  have f: "completions_create env_reject
             [conversation ''You are acting as Anjani Prakash.'' [] ''Hello'']
             (conversation (rejection_context env_reject (Some ''Hi there'') ''too informal'') []
                ''Hello'') = Inr thanks"
    unfolding env_reject_def by (rule stub_first_reply(5)) simp
  note r = gate_accepts_or_regenerates_once [OF a b c, unfolded d e s0_fields]
  note r' = gate_accepts_or_regenerates_once [OF a b' c', unfolded d e s0_fields]
  from r have r1: "fst (chat_profile env_reject ''Hello'' 0 s0) = Inr (Some ''Thanks!'')"
    "calls (snd (chat_profile env_reject ''Hello'' 0 s0))
       = [conversation ''You are acting as Anjani Prakash.'' [] ''Hello'',
          conversation (rejection_context env_reject (Some ''Hi there'') ''too informal'') []
            ''Hello'']"
    "sublist ''Hi there'' (rejection_context env_reject (Some ''Hi there'') ''too informal'')"
    "sublist ''too informal'' (rejection_context env_reject (Some ''Hi there'') ''too informal'')"
    "length (parses (snd (chat_profile env_reject ''Hello'' 0 s0))) = 1"
    by (simp_all add: no_patent_in_hello f d str_opt_def)
  from r' have r2: "fst (chat_profile env_accept ''Hello'' 0 s0) = Inr (Some ''Hi there'')"
    "calls (snd (chat_profile env_accept ''Hello'' 0 s0))
       = [conversation ''You are acting as Anjani Prakash.'' [] ''Hello'']"
    by (simp_all add: no_patent_in_hello d)
  from a b c d(1,2) r1 r2 show ?thesis by blast
qed


text \<open>
  Claim C5, with a judge whose reply fails validation and with one that refuses.
\<close>

theorem judge_failure_is_an_error_witness:
  "0 < next_free s0
   \<and> completions_create env_unparsed (calls s0)
        (conversation (if sublist ''patent'' ''Hello'' then system_prompt env_unparsed @ pig_latin
                       else system_prompt env_unparsed) (heap s0 0) ''Hello'') = Inr candidate
   \<and> completions_parse env_unparsed (parses s0)
        [dict_message ''system'' (evaluator_system_prompt env_unparsed),
         dict_message ''user''
           (evaluator_user_prompt env_unparsed (content (response_message candidate)) ''Hello''
              (heap s0 0))] = Inl (LibraryError ''ValidationError'')
   \<and> fst (chat_profile env_unparsed ''Hello'' 0 s0) = Inl (LibraryError ''ValidationError'')
   \<and> calls (snd (chat_profile env_unparsed ''Hello'' 0 s0))
       = [conversation ''You are acting as Anjani Prakash.'' [] ''Hello'']
   \<and> completions_parse env_refused (parses s0)
        [dict_message ''system'' (evaluator_system_prompt env_refused),
         dict_message ''user''
           (evaluator_user_prompt env_refused (content (response_message candidate)) ''Hello''
              (heap s0 0))] = Inr None
   \<and> fst (chat_profile env_refused ''Hello'' 0 s0) = Inl AttributeError
   \<and> calls (snd (chat_profile env_refused ''Hello'' 0 s0))
       = [conversation ''You are acting as Anjani Prakash.'' [] ''Hello'']"
proof -
  have a: "0 < next_free s0" by (simp add: s0_fields)
  have b: "completions_create env_unparsed (calls s0)
        (conversation (if sublist ''patent'' ''Hello'' then system_prompt env_unparsed @ pig_latin
                       else system_prompt env_unparsed) (heap s0 0) ''Hello'') = Inr candidate"
    by (simp add: env_unparsed_def stub_first_reply s0_fields)
  have c: "completions_parse env_unparsed (parses s0)
        [dict_message ''system'' (evaluator_system_prompt env_unparsed),
         dict_message ''user''
           (evaluator_user_prompt env_unparsed (content (response_message candidate)) ''Hello''
              (heap s0 0))] = Inl (LibraryError ''ValidationError'')"
    by (simp only: env_unparsed_def stub_first_reply)
  have b': "completions_create env_refused (calls s0)
        (conversation (if sublist ''patent'' ''Hello'' then system_prompt env_refused @ pig_latin
                       else system_prompt env_refused) (heap s0 0) ''Hello'') = Inr candidate"
    by (simp add: env_refused_def stub_first_reply s0_fields)
  have c': "completions_parse env_refused (parses s0)
        [dict_message ''system'' (evaluator_system_prompt env_refused),
         dict_message ''user''
           (evaluator_user_prompt env_refused (content (response_message candidate)) ''Hello''
              (heap s0 0))] = Inr None"
    by (simp only: env_refused_def stub_first_reply)
  have e: "system_prompt env_unparsed = ''You are acting as Anjani Prakash.''"
    "system_prompt env_refused = ''You are acting as Anjani Prakash.''"
    by (simp_all only: env_unparsed_def env_refused_def stub_first_reply)
  from judge_failure_is_an_error [OF a b, of "LibraryError ''ValidationError''"] c
  have r1: "fst (chat_profile env_unparsed ''Hello'' 0 s0) = Inl (LibraryError ''ValidationError'')"
    "calls (snd (chat_profile env_unparsed ''Hello'' 0 s0))
       = [conversation ''You are acting as Anjani Prakash.'' [] ''Hello'']"
    by (simp_all add: no_patent_in_hello e s0_fields)
  from judge_failure_is_an_error [OF a b', of AttributeError] c'
  have r2: "fst (chat_profile env_refused ''Hello'' 0 s0) = Inl AttributeError"
    "calls (snd (chat_profile env_refused ''Hello'' 0 s0))
       = [conversation ''You are acting as Anjani Prakash.'' [] ''Hello'']"
    by (simp_all add: no_patent_in_hello e s0_fields)
  from a b c c' r1 r2 show ?thesis by blast
qed

text \<open>
  Claim C10, for one message that mentions a patent and one that does not.
\<close>

theorem generation_request_system_message_witness:
  "hd (calls (snd (chat_profile env_accept ''Do you hold a patent?'' 0 s0)))
     = [dict_message ''system'' (''You are acting as Anjani Prakash.'' @ pig_latin),
        dict_message ''user'' ''Do you hold a patent?'']
   \<and> hd (calls (snd (chat_profile env_accept ''Hello'' 0 s0)))
     = [dict_message ''system'' ''You are acting as Anjani Prakash.'',
        dict_message ''user'' ''Hello'']"
proof -
  have e: "system_prompt env_accept = ''You are acting as Anjani Prakash.''"
    by (simp only: env_accept_def stub_first_reply)
  from generation_request_system_message [of env_accept "''Do you hold a patent?''" 0 s0]
  obtain later where "calls (snd (chat_profile env_accept ''Do you hold a patent?'' 0 s0))
     = [dict_message ''system'' (''You are acting as Anjani Prakash.'' @ pig_latin),
        dict_message ''user'' ''Do you hold a patent?''] # later"
    unfolding e s0_fields by (auto simp: patent_in_question)
  moreover from generation_request_system_message [of env_accept "''Hello''" 0 s0]
  obtain later' where "calls (snd (chat_profile env_accept ''Hello'' 0 s0))
     = [dict_message ''system'' ''You are acting as Anjani Prakash.'',
        dict_message ''user'' ''Hello''] # later'"
    unfolding e s0_fields by (auto simp: no_patent_in_hello)
  ultimately show ?thesis by simp
qed

end
